theory Spec2Isabelle
  imports Complex_Main
begin

unbundle bit_operations_syntax

section \<open>Data model (lib/types.ts, lib/defaults.ts)\<close>

text \<open>
  A JavaScript number is modelled by the exact value it holds: loop counters and array
  indices by \<open>nat\<close>, grid coordinates that may be \<open>-1\<close> by \<open>int\<close>, bytes of a
  \<open>Uint8Array\<close> by \<open>nat\<close> reduced \<open>mod 256\<close> where the array is built, millimetre
  values by \<open>real\<close>. A \<open>boolean[][]\<close> is a list of rows. The eligibility functions
  read \<open>tiles[r][c]\<close> with \<open>c\<close> checked against the length of row 0 only, so every
  theorem about them takes a rectangular grid, which is what the data model of the
  program means by a grid.
\<close>

record ScrewSize =
  diameter :: real
  head_diameter :: real
  head_inset :: real

record SummitFeatures =
  connector_angle :: "int option"
  tile_chamfer :: bool
  screw :: bool

datatype OpengridType = Full | Lite

record GridPlan =
  tiles :: "bool list list"
  summits :: "SummitFeatures list list"
  opengrid_type :: OpengridType
  screw_size :: ScrewSize

definition emptySummit :: SummitFeatures where
  "emptySummit = \<lparr>connector_angle = None, tile_chamfer = False, screw = False\<rparr>"

definition createEmptyGrid :: "nat \<Rightarrow> nat \<Rightarrow> bool list list \<times> SummitFeatures list list" where
  "createEmptyGrid rows cols =
     (replicate rows (replicate cols True),
      replicate (rows + 1) (replicate (cols + 1) emptySummit))"

definition DEFAULT_SCREW_SIZE :: ScrewSize where
  "DEFAULT_SCREW_SIZE = \<lparr>diameter = 42 / 10, head_diameter = 8, head_inset = 1\<rparr>"

definition LITE_DEFAULT_SCREW_SIZE :: ScrewSize where
  "LITE_DEFAULT_SCREW_SIZE = \<lparr>diameter = 41 / 10, head_diameter = 72 / 10, head_inset = 1\<rparr>"

text \<open>\<open>g.length\<close> and \<open>g[0]?.length ?? 0\<close>.\<close>

definition nrows :: "'a list list \<Rightarrow> nat" where
  "nrows g = length g"

definition ncols :: "'a list list \<Rightarrow> nat" where
  "ncols g = (case g of [] \<Rightarrow> 0 | row # _ \<Rightarrow> length row)"

definition rectangular :: "'a list list \<Rightarrow> bool" where
  "rectangular g = list_all (\<lambda>row. length row = ncols g) g"

section \<open>Eligibility engine (lib/eligibility.ts)\<close>

definition isTile :: "bool list list \<Rightarrow> int \<Rightarrow> int \<Rightarrow> bool" where
  "isTile ts r c =
     (let rows = int (nrows ts); cols = int (ncols ts)
      in if r \<ge> 0 \<and> r < rows \<and> c \<ge> 0 \<and> c < cols then ts ! nat r ! nat c else False)"

definition computeEligibleConnectorPositions :: "bool list list \<Rightarrow> bool list list" where
  "computeEligibleConnectorPositions ts =
     map (\<lambda>i. map (\<lambda>j.
        let tl = isTile ts (int i - 1) (int j - 1);
            tr = isTile ts (int i - 1) (int j);
            bl = isTile ts (int i) (int j - 1);
            br = isTile ts (int i) (int j)
        in (tl = tr \<and> bl = br \<and> tl \<noteq> bl) \<or> (tl = bl \<and> tr = br \<and> tl \<noteq> tr))
       [0 ..< ncols ts + 1]) [0 ..< nrows ts + 1]"

definition computeConnectorDirection :: "bool list list \<Rightarrow> nat \<Rightarrow> nat \<Rightarrow> int" where
  "computeConnectorDirection ts i j =
     (let tl = isTile ts (int i - 1) (int j - 1);
          tr = isTile ts (int i - 1) (int j);
          bl = isTile ts (int i) (int j - 1);
          br = isTile ts (int i) (int j)
      in if tl = tr \<and> bl = br \<and> tl \<noteq> bl then (if bl then - 90 else 90)
         else if tl = bl \<and> tr = br \<and> tl \<noteq> tr then (if tr then 0 else 180)
         else 0)"

definition computeEligibleChamferPositions :: "bool list list \<Rightarrow> bool list list" where
  "computeEligibleChamferPositions ts =
     map (\<lambda>i. map (\<lambda>j.
        let count = length (filter (\<lambda>b. b)
              [isTile ts (int i - 1) (int j - 1),
               isTile ts (int i - 1) (int j),
               isTile ts (int i) (int j - 1),
               isTile ts (int i) (int j)])
        in count = 1)
       [0 ..< ncols ts + 1]) [0 ..< nrows ts + 1]"

definition computeEligibleScrewPositions :: "bool list list \<Rightarrow> bool list list" where
  "computeEligibleScrewPositions ts =
     map (\<lambda>i. map (\<lambda>j.
        let tl = isTile ts (int i - 1) (int j - 1);
            tr = isTile ts (int i - 1) (int j);
            bl = isTile ts (int i) (int j - 1);
            br = isTile ts (int i) (int j)
        in tl \<and> tr \<and> bl \<and> br)
       [0 ..< ncols ts + 1]) [0 ..< nrows ts + 1]"

text \<open>The inner helper \<open>isEligible\<close> of \<open>computeCornerScrewPositions\<close>.\<close>

definition isEligible :: "bool list list \<Rightarrow> int \<Rightarrow> int \<Rightarrow> bool" where
  "isEligible eligible r c =
     (let nRows = int (nrows eligible); nCols = int (ncols eligible)
      in if r \<ge> 0 \<and> r < nRows \<and> c \<ge> 0 \<and> c < nCols then eligible ! nat r ! nat c else False)"

definition computeCornerScrewPositions :: "bool list list \<Rightarrow> bool list list" where
  "computeCornerScrewPositions eligible =
     map (\<lambda>i. map (\<lambda>j.
        if \<not> eligible ! i ! j then False
        else
          let hThrough = isEligible eligible (int i) (int j - 1) \<and> isEligible eligible (int i) (int j + 1);
              vThrough = isEligible eligible (int i - 1) (int j) \<and> isEligible eligible (int i + 1) (int j)
          in \<not> hThrough \<and> \<not> vThrough)
       [0 ..< ncols eligible]) [0 ..< nrows eligible]"

record Eligibility =
  connectors :: "bool list list"
  chamfers :: "bool list list"
  screws :: "bool list list"

definition computeAllEligibility :: "bool list list \<Rightarrow> Eligibility" where
  "computeAllEligibility ts =
     \<lparr>connectors = computeEligibleConnectorPositions ts,
      chamfers = computeEligibleChamferPositions ts,
      screws = computeEligibleScrewPositions ts\<rparr>"

section \<open>Plan builder: the editor state (hooks/useGridState.ts)\<close>

text \<open>
  \<open>g[i]?.[j]\<close> read for its truth value: a missing row or a missing entry is
  \<open>undefined\<close>, which is falsy.
\<close>

definition truthyAt :: "bool list list \<Rightarrow> nat \<Rightarrow> nat \<Rightarrow> bool" where
  "truthyAt g i j = (i < length g \<and> j < length (g ! i) \<and> g ! i ! j)"

definition pruneSummits :: "SummitFeatures list list \<Rightarrow> Eligibility \<Rightarrow> SummitFeatures list list" where
  "pruneSummits ss eligibility =
     map (\<lambda>(i, row). map (\<lambda>(j, s).
        \<lparr>connector_angle = (if truthyAt (connectors eligibility) i j then connector_angle s else None),
         tile_chamfer = (if truthyAt (chamfers eligibility) i j then tile_chamfer s else False),
         screw = (if truthyAt (screws eligibility) i j then screw s else False)\<rparr>)
       (enumerate 0 row)) (enumerate 0 ss)"

text \<open>
  The hook keeps four pieces of state (tiles, summits, opengridType, screwSize) and
  \<open>toGridPlan\<close> packs exactly these four into a plan, so the editor state is
  a \<open>GridPlan\<close> value. Each callback is a function from the state before to the state
  after; \<open>cloneTiles\<close> and \<open>cloneSummits\<close> copy and change nothing. The memoised
  \<open>eligibility\<close> is \<open>computeAllEligibility\<close> of the current tiles. A callback that
  dereferences a missing summit throws a \<open>TypeError\<close>. \<open>toggleTile\<close> with a column
  beyond the row would make JavaScript grow the row and leave empty slots in it: such a
  row is no longer a list of booleans, and the model stops there with \<open>SparseWrite\<close>.
\<close>

datatype error = TypeError | SparseWrite

definition initialState :: "nat \<Rightarrow> nat \<Rightarrow> GridPlan" where
  "initialState initialRows initialCols =
     \<lparr>tiles = fst (createEmptyGrid initialRows initialCols),
      summits = snd (createEmptyGrid initialRows initialCols),
      opengrid_type = Full,
      screw_size = DEFAULT_SCREW_SIZE\<rparr>"

definition setOpengridType :: "OpengridType \<Rightarrow> GridPlan \<Rightarrow> GridPlan" where
  "setOpengridType ty s =
     s\<lparr>opengrid_type := ty,
       screw_size := (if ty = Lite then LITE_DEFAULT_SCREW_SIZE else DEFAULT_SCREW_SIZE)\<rparr>"

definition setScrewSize :: "ScrewSize \<Rightarrow> GridPlan \<Rightarrow> GridPlan" where
  "setScrewSize sz s = s\<lparr>screw_size := sz\<rparr>"

text \<open>\<open>next[i][j].field = v\<close> on a grid of summits, with its \<open>TypeError\<close>.\<close>

definition setSummit ::
  "nat \<Rightarrow> nat \<Rightarrow> (SummitFeatures \<Rightarrow> SummitFeatures) \<Rightarrow> SummitFeatures list list
     \<Rightarrow> error + SummitFeatures list list" where
  "setSummit i j f ss =
     (if i < length ss \<and> j < length (ss ! i)
      then Inr (ss[i := (ss ! i)[j := f (ss ! i ! j)]])
      else Inl TypeError)"

definition toggleTile :: "nat \<Rightarrow> nat \<Rightarrow> GridPlan \<Rightarrow> error + GridPlan" where
  "toggleTile r c s =
     (if \<not> r < length (tiles s) then Inl TypeError
      else if \<not> c < length (tiles s ! r) then Inl SparseWrite
      else
        let newTiles = (tiles s)[r := (tiles s ! r)[c := \<not> tiles s ! r ! c]];
            newElig = computeAllEligibility newTiles
        in Inr (s\<lparr>tiles := newTiles, summits := pruneSummits (summits s) newElig\<rparr>))"

definition toggleConnector :: "nat \<Rightarrow> nat \<Rightarrow> GridPlan \<Rightarrow> error + GridPlan" where
  "toggleConnector i j s =
     (let eligibility = computeAllEligibility (tiles s)
      in if \<not> truthyAt (connectors eligibility) i j then Inr s
         else case setSummit i j
                (\<lambda>sf. if connector_angle sf \<noteq> None then sf\<lparr>connector_angle := None\<rparr>
                       else sf\<lparr>connector_angle := Some (computeConnectorDirection (tiles s) i j)\<rparr>)
                (summits s) of
              Inl e \<Rightarrow> Inl e
            | Inr next \<Rightarrow> Inr (s\<lparr>summits := next\<rparr>))"

definition toggleChamfer :: "nat \<Rightarrow> nat \<Rightarrow> GridPlan \<Rightarrow> error + GridPlan" where
  "toggleChamfer i j s =
     (let eligibility = computeAllEligibility (tiles s)
      in if \<not> truthyAt (chamfers eligibility) i j then Inr s
         else case setSummit i j (\<lambda>sf. sf\<lparr>tile_chamfer := \<not> tile_chamfer sf\<rparr>) (summits s) of
              Inl e \<Rightarrow> Inl e
            | Inr next \<Rightarrow> Inr (s\<lparr>summits := next\<rparr>))"

definition toggleScrew :: "nat \<Rightarrow> nat \<Rightarrow> GridPlan \<Rightarrow> error + GridPlan" where
  "toggleScrew i j s =
     (let eligibility = computeAllEligibility (tiles s)
      in if \<not> truthyAt (screws eligibility) i j then Inr s
         else case setSummit i j (\<lambda>sf. sf\<lparr>screw := \<not> screw sf\<rparr>) (summits s) of
              Inl e \<Rightarrow> Inl e
            | Inr next \<Rightarrow> Inr (s\<lparr>summits := next\<rparr>))"

definition addRow :: "GridPlan \<Rightarrow> GridPlan" where
  "addRow s =
     (let cols = ncols (tiles s)
      in s\<lparr>tiles := tiles s @ [replicate cols True],
           summits := summits s @ [replicate (cols + 1) emptySummit]\<rparr>)"

definition removeRow :: "GridPlan \<Rightarrow> GridPlan" where
  "removeRow s =
     (let rows = nrows (tiles s)
      in if rows \<le> 1 then s
         else
           let newTiles = butlast (tiles s);
               newElig = computeAllEligibility newTiles;
               trimmed = butlast (summits s)
           in s\<lparr>tiles := newTiles, summits := pruneSummits trimmed newElig\<rparr>)"

definition addColumn :: "GridPlan \<Rightarrow> GridPlan" where
  "addColumn s =
     s\<lparr>tiles := map (\<lambda>row. row @ [True]) (tiles s),
       summits := map (\<lambda>row. row @ [emptySummit]) (summits s)\<rparr>"

definition removeColumn :: "GridPlan \<Rightarrow> GridPlan" where
  "removeColumn s =
     (let cols = ncols (tiles s)
      in if cols \<le> 1 then s
         else
           let newTiles = map butlast (tiles s);
               newElig = computeAllEligibility newTiles;
               trimmed = map butlast (summits s)
           in s\<lparr>tiles := newTiles, summits := pruneSummits trimmed newElig\<rparr>)"

text \<open>
  The double loop \<open>for i \<le> rows, for j \<le> cols\<close> of the four \<open>enable\<close> callbacks,
  row-major, stopping at the first throw.
\<close>

definition forSummits ::
  "nat \<Rightarrow> nat \<Rightarrow> (nat \<Rightarrow> nat \<Rightarrow> 'a \<Rightarrow> error + 'a) \<Rightarrow> 'a \<Rightarrow> error + 'a" where
  "forSummits rows cols body init =
     fold (\<lambda>(i, j) acc. case acc of Inl e \<Rightarrow> Inl e | Inr x \<Rightarrow> body i j x)
       (List.product [0 ..< rows + 1] [0 ..< cols + 1]) (Inr init)"

definition withSummits :: "GridPlan \<Rightarrow> error + SummitFeatures list list \<Rightarrow> error + GridPlan" where
  "withSummits s r = (case r of Inl e \<Rightarrow> Inl e | Inr next \<Rightarrow> Inr (s\<lparr>summits := next\<rparr>))"

definition enableAllConnectors :: "GridPlan \<Rightarrow> error + GridPlan" where
  "enableAllConnectors s =
     (let eligibility = computeAllEligibility (tiles s)
      in withSummits s (forSummits (nrows (tiles s)) (ncols (tiles s))
           (\<lambda>i j next.
              if truthyAt (connectors eligibility) i j
              then setSummit i j
                     (\<lambda>sf. if connector_angle sf = None
                            then sf\<lparr>connector_angle := Some (computeConnectorDirection (tiles s) i j)\<rparr>
                            else sf) next
              else Inr next)
           (summits s)))"

definition enableAllChamfers :: "GridPlan \<Rightarrow> error + GridPlan" where
  "enableAllChamfers s =
     (let eligibility = computeAllEligibility (tiles s)
      in withSummits s (forSummits (nrows (tiles s)) (ncols (tiles s))
           (\<lambda>i j next.
              if truthyAt (chamfers eligibility) i j
              then setSummit i j (\<lambda>sf. sf\<lparr>tile_chamfer := True\<rparr>) next
              else Inr next)
           (summits s)))"

definition enableAllScrews :: "GridPlan \<Rightarrow> error + GridPlan" where
  "enableAllScrews s =
     (let eligibility = computeAllEligibility (tiles s)
      in withSummits s (forSummits (nrows (tiles s)) (ncols (tiles s))
           (\<lambda>i j next.
              if truthyAt (screws eligibility) i j
              then setSummit i j (\<lambda>sf. sf\<lparr>screw := True\<rparr>) next
              else Inr next)
           (summits s)))"

definition enableCornerScrews :: "GridPlan \<Rightarrow> error + GridPlan" where
  "enableCornerScrews s =
     (let eligibility = computeAllEligibility (tiles s);
          corners = computeCornerScrewPositions (screws eligibility)
      in withSummits s (forSummits (nrows (tiles s)) (ncols (tiles s))
           (\<lambda>i j next.
              if truthyAt (screws eligibility) i j
              then setSummit i j (\<lambda>sf. sf\<lparr>screw := truthyAt corners i j\<rparr>) next
              else Inr next)
           (summits s)))"

definition clearAllConnectors :: "GridPlan \<Rightarrow> GridPlan" where
  "clearAllConnectors s = s\<lparr>summits := map (map (\<lambda>sf. sf\<lparr>connector_angle := None\<rparr>)) (summits s)\<rparr>"

definition clearAllChamfers :: "GridPlan \<Rightarrow> GridPlan" where
  "clearAllChamfers s = s\<lparr>summits := map (map (\<lambda>sf. sf\<lparr>tile_chamfer := False\<rparr>)) (summits s)\<rparr>"

definition clearAllScrews :: "GridPlan \<Rightarrow> GridPlan" where
  "clearAllScrews s = s\<lparr>summits := map (map (\<lambda>sf. sf\<lparr>screw := False\<rparr>)) (summits s)\<rparr>"


text \<open>The callbacks the hook returns, as one operation type, and a run of them.\<close>

datatype Op =
    SetOpengridType OpengridType
  | SetScrewSize ScrewSize
  | ToggleTile nat nat
  | ToggleConnector nat nat
  | ToggleChamfer nat nat
  | ToggleScrew nat nat
  | AddRow
  | RemoveRow
  | AddColumn
  | RemoveColumn
  | EnableAllConnectors
  | EnableAllChamfers
  | EnableAllScrews
  | EnableCornerScrews
  | ClearAllConnectors
  | ClearAllChamfers
  | ClearAllScrews

fun applyOp :: "Op \<Rightarrow> GridPlan \<Rightarrow> error + GridPlan" where
  "applyOp (SetOpengridType ty) s = Inr (setOpengridType ty s)"
| "applyOp (SetScrewSize sz) s = Inr (setScrewSize sz s)"
| "applyOp (ToggleTile r c) s = toggleTile r c s"
| "applyOp (ToggleConnector i j) s = toggleConnector i j s"
| "applyOp (ToggleChamfer i j) s = toggleChamfer i j s"
| "applyOp (ToggleScrew i j) s = toggleScrew i j s"
| "applyOp AddRow s = Inr (addRow s)"
| "applyOp RemoveRow s = Inr (removeRow s)"
| "applyOp AddColumn s = Inr (addColumn s)"
| "applyOp RemoveColumn s = Inr (removeColumn s)"
| "applyOp EnableAllConnectors s = enableAllConnectors s"
| "applyOp EnableAllChamfers s = enableAllChamfers s"
| "applyOp EnableAllScrews s = enableAllScrews s"
| "applyOp EnableCornerScrews s = enableCornerScrews s"
| "applyOp ClearAllConnectors s = Inr (clearAllConnectors s)"
| "applyOp ClearAllChamfers s = Inr (clearAllChamfers s)"
| "applyOp ClearAllScrews s = Inr (clearAllScrews s)"

fun runOps :: "Op list \<Rightarrow> GridPlan \<Rightarrow> error + GridPlan" where
  "runOps [] s = Inr s"
| "runOps (op # ops) s = (case applyOp op s of Inl e \<Rightarrow> Inl e | Inr s' \<Rightarrow> runOps ops s')"

section \<open>Compact codec (lib/compact.ts)\<close>

text \<open>
  A string is its list of code units; a \<open>char\<close> stands for a code unit below 256.
  The bit operations of the source act on small non-negative numbers (below \<open>2^14\<close>),
  where the 32-bit operations of JavaScript and those on \<open>nat\<close> agree. Storing into
  a \<open>Uint8Array\<close> reduces \<open>mod 256\<close>.
\<close>

subsection \<open>Base64url helpers\<close>

definition B64 :: string where
  "B64 = ''ABCDEFGHIJKLMNOPQRSTUVWXYZabcdefghijklmnopqrstuvwxyz0123456789-_''"

definition charCode :: "char \<Rightarrow> nat" where
  "charCode ch = of_char ch"


text \<open>The table \<open>lookup\<close>: 128 zero bytes, then \<open>lookup[B64.charCodeAt(i)] = i\<close>.\<close>

definition lookupTable :: "nat list" where
  "lookupTable =
     fold (\<lambda>i tab. tab[charCode (B64 ! i) := i mod 256]) [0 ..< length B64] (replicate 128 0)"

text \<open>
  \<open>s[i] === "=" ? 0 : lookup[s.charCodeAt(i)]\<close>; a code unit outside the table reads
  \<open>undefined\<close>, which the shifts that follow take as 0.
\<close>

definition sextet :: "char \<Rightarrow> nat" where
  "sextet ch =
     (if ch = CHR ''='' then 0
      else if charCode ch < length lookupTable then lookupTable ! charCode ch else 0)"

function padTo4 :: "string \<Rightarrow> string" where
  "padTo4 s = (if length s mod 4 \<noteq> 0 then padTo4 (s @ ''='') else s)"
  by pat_completeness auto
termination
  by (relation "measure (\<lambda>s. 3 - (length s + 3) mod 4)") (auto, presburger)

declare padTo4.simps [simp del]

fun decodeQuads :: "string \<Rightarrow> nat list" where
  "decodeQuads (a # b # c # d # rest) =
     (let c0 = sextet a; c1 = sextet b; c2 = sextet c; c3 = sextet d
      in [push_bit 2 c0 OR drop_bit 4 c1]
         @ (if c \<noteq> CHR ''='' then [(push_bit 4 c1 OR drop_bit 2 c2) AND 255] else [])
         @ (if d \<noteq> CHR ''='' then [(push_bit 6 c2 OR c3) AND 255] else [])
         @ decodeQuads rest)"
| "decodeQuads _ = []"

definition b64urlDecode :: "string \<Rightarrow> nat list" where
  "b64urlDecode s = map (\<lambda>v. v mod 256) (decodeQuads (padTo4 s))"

subsection \<open>Bit packing\<close>


definition bytesToBits :: "nat list \<Rightarrow> nat \<Rightarrow> bool list" where
  "bytesToBits data nBits =
     map (\<lambda>i. let byteIdx = drop_bit 3 i; bitIdx = 7 - (i AND 7)
               in (if byteIdx < length data then data ! byteIdx AND push_bit bitIdx 1 else 0) \<noteq> 0)
       [0 ..< nBits]"

subsection \<open>Numbers and strings\<close>






text \<open>
  \<open>parseInt(s, 10)\<close>: leading white space is skipped, one sign is read, then the
  longest run of decimal digits; no digit gives \<open>NaN\<close>, here \<open>None\<close>.
\<close>

definition isWhiteSpace :: "char \<Rightarrow> bool" where
  "isWhiteSpace ch = (charCode ch \<in> {9, 10, 11, 12, 13, 32, 160})"

definition isDigit :: "char \<Rightarrow> bool" where
  "isDigit ch = (48 \<le> charCode ch \<and> charCode ch \<le> 57)"

definition digitsValue :: "string \<Rightarrow> nat" where
  "digitsValue ds = foldl (\<lambda>acc ch. 10 * acc + (charCode ch - 48)) 0 ds"

definition parseInt :: "string \<Rightarrow> int option" where
  "parseInt str =
     (let S = dropWhile isWhiteSpace str;
          sign = (if S \<noteq> [] \<and> hd S = CHR ''-'' then - 1 else 1 :: int);
          S' = (if S \<noteq> [] \<and> (hd S = CHR ''+'' \<or> hd S = CHR ''-'') then tl S else S);
          Z = takeWhile isDigit S'
      in if Z = [] then None else Some (sign * int (digitsValue Z)))"

text \<open>\<open>code.split(".")\<close>.\<close>

fun splitDot :: "string \<Rightarrow> string list" where
  "splitDot [] = [[]]"
| "splitDot (ch # rest) =
     (if ch = CHR ''.'' then [] # splitDot rest
      else case splitDot rest of
             [] \<Rightarrow> [[ch]]
           | part # parts \<Rightarrow> (ch # part) # parts)"

subsection \<open>Public API\<close>


datatype decode_error =
    WrongPartCount nat
  | UnsupportedVersion string
  | InvalidType string
  | InvalidDimensions string string
  | DimensionsTooSmall int int
  | ScrewDataLength nat
  | InsufficientTileData
  | InsufficientFeatureData

definition decode :: "string \<Rightarrow> decode_error + GridPlan" where
  "decode code =
     (let parts = splitDot code
      in if length parts \<noteq> 7 then Inl (WrongPartCount (length parts))
         else
           let version = parts ! 0; typeChar = parts ! 1; rStr = parts ! 2; cStr = parts ! 3;
               screwStr = parts ! 4; tilesStr = parts ! 5; featuresStr = parts ! 6
           in if version \<noteq> ''0'' then Inl (UnsupportedVersion version)
              else if typeChar \<noteq> ''f'' \<and> typeChar \<noteq> ''l'' then Inl (InvalidType typeChar)
              else
                let opengridType = (if typeChar = ''f'' then Full else Lite)
                in case (parseInt rStr, parseInt cStr) of
                     (Some rowsI, Some colsI) \<Rightarrow>
                       if rowsI < 1 \<or> colsI < 1 then Inl (DimensionsTooSmall rowsI colsI)
                       else
                         let rows = nat rowsI; cols = nat colsI;
                             screwData = b64urlDecode screwStr
                         in if length screwData \<noteq> 3 then Inl (ScrewDataLength (length screwData))
                            else
                              let screwSize =
                                    \<lparr>diameter = real (screwData ! 0) / 10,
                                     head_diameter = real (screwData ! 1) / 10,
                                     head_inset = real (screwData ! 2) / 10\<rparr>;
                                  tilesData = b64urlDecode tilesStr;
                                  nTileBits = rows * cols
                              in if length tilesData < (nTileBits + 7) div 8 then Inl InsufficientTileData
                                 else
                                   let tileBits = bytesToBits tilesData nTileBits;
                                       ts = map (\<lambda>r. map (\<lambda>c. tileBits ! (r * cols + c)) [0 ..< cols])
                                              [0 ..< rows];
                                       connEligible = computeEligibleConnectorPositions ts;
                                       chamferEligible = computeEligibleChamferPositions ts;
                                       screwEligible = computeEligibleScrewPositions ts;
                                       featuresData = b64urlDecode featuresStr;
                                       nFeatureBits = (rows + 1) * (cols + 1)
                                   in if length featuresData < (nFeatureBits + 7) div 8
                                      then Inl InsufficientFeatureData
                                      else
                                        let featureBits = bytesToBits featuresData nFeatureBits;
                                            ss = map (\<lambda>i. map (\<lambda>j.
                                                   let bit = featureBits ! (i * (cols + 1) + j);
                                                       sf = emptySummit
                                                   in if bit then
                                                        (if connEligible ! i ! j
                                                         then sf\<lparr>connector_angle :=
                                                                Some (computeConnectorDirection ts i j)\<rparr>
                                                         else if chamferEligible ! i ! j
                                                         then sf\<lparr>tile_chamfer := True\<rparr>
                                                         else if screwEligible ! i ! j
                                                         then sf\<lparr>screw := True\<rparr>
                                                         else sf)
                                                      else sf)
                                                  [0 ..< cols + 1]) [0 ..< rows + 1]
                                        in Inr \<lparr>tiles = ts, summits = ss,
                                                opengrid_type = opengridType,
                                                screw_size = screwSize\<rparr>
                   | _ \<Rightarrow> Inl (InvalidDimensions rStr cStr))"

section \<open>Notions used in the statements\<close>

text \<open>
  The two grids \<open>decode\<close> builds, as functions of the decoded payloads: the tiles
  unpacked from the tile bytes, and the summits resolved from the feature bytes by the
  priority order connector, chamfer, screw.
\<close>

definition unpackTiles :: "nat list \<Rightarrow> nat \<Rightarrow> nat \<Rightarrow> bool list list" where
  "unpackTiles tilesData rows cols =
     map (\<lambda>r. map (\<lambda>c. bytesToBits tilesData (rows * cols) ! (r * cols + c)) [0 ..< cols])
       [0 ..< rows]"

definition resolveSummit :: "bool list list \<Rightarrow> bool \<Rightarrow> nat \<Rightarrow> nat \<Rightarrow> SummitFeatures" where
  "resolveSummit ts active i j =
     (if active then
        (if computeEligibleConnectorPositions ts ! i ! j
         then emptySummit\<lparr>connector_angle := Some (computeConnectorDirection ts i j)\<rparr>
         else if computeEligibleChamferPositions ts ! i ! j
         then emptySummit\<lparr>tile_chamfer := True\<rparr>
         else if computeEligibleScrewPositions ts ! i ! j
         then emptySummit\<lparr>screw := True\<rparr>
         else emptySummit)
      else emptySummit)"

definition resolveSummits :: "bool list list \<Rightarrow> nat list \<Rightarrow> nat \<Rightarrow> nat \<Rightarrow> SummitFeatures list list" where
  "resolveSummits ts featuresData rows cols =
     map (\<lambda>i. map (\<lambda>j.
        resolveSummit ts (bytesToBits featuresData ((rows + 1) * (cols + 1)) ! (i * (cols + 1) + j)) i j)
       [0 ..< cols + 1]) [0 ..< rows + 1]"


text \<open>
  The validation conditions of the wire format, in the words of the specification:
  seven fields, version \<open>0\<close>, type \<open>f\<close> or \<open>l\<close>, numeric dimensions of at least 1,
  a screw payload of exactly 3 bytes, and tile and summit payloads of at least
  \<open>ceil(rows * cols / 8)\<close> and \<open>ceil((rows + 1) * (cols + 1) / 8)\<close> bytes.
\<close>

definition passesValidation :: "string \<Rightarrow> bool" where
  "passesValidation code =
     (let parts = splitDot code
      in length parts = 7 \<and> parts ! 0 = ''0'' \<and> (parts ! 1 = ''f'' \<or> parts ! 1 = ''l'')
         \<and> (case (parseInt (parts ! 2), parseInt (parts ! 3)) of
               (Some rows, Some cols) \<Rightarrow>
                 1 \<le> rows \<and> 1 \<le> cols
                 \<and> length (b64urlDecode (parts ! 4)) = 3
                 \<and> \<lceil>real_of_int (rows * cols) / 8\<rceil> \<le> int (length (b64urlDecode (parts ! 5)))
                 \<and> \<lceil>real_of_int ((rows + 1) * (cols + 1)) / 8\<rceil>
                     \<le> int (length (b64urlDecode (parts ! 6)))
             | _ \<Rightarrow> False))"

text \<open>
  The invariants of a plan: its shape, that every active feature is eligible where it
  stands, that a stored connector angle is the direction computed from the tiles, and
  that each screw dimension rounds to a byte.
\<close>

definition wellFormed :: "GridPlan \<Rightarrow> bool" where
  "wellFormed p =
     (1 \<le> nrows (tiles p) \<and> 1 \<le> ncols (tiles p) \<and> rectangular (tiles p)
      \<and> length (summits p) = nrows (tiles p) + 1
      \<and> list_all (\<lambda>row. length row = ncols (tiles p) + 1) (summits p))"

definition featuresEligible :: "Eligibility \<Rightarrow> nat \<Rightarrow> nat \<Rightarrow> SummitFeatures \<Rightarrow> bool" where
  "featuresEligible e i j sf =
     ((connector_angle sf = None \<or> truthyAt (connectors e) i j)
      \<and> (tile_chamfer sf = False \<or> truthyAt (chamfers e) i j)
      \<and> (screw sf = False \<or> truthyAt (screws e) i j))"

definition eligibilityConsistent :: "GridPlan \<Rightarrow> bool" where
  "eligibilityConsistent p =
     (let e = computeAllEligibility (tiles p)
      in list_all (\<lambda>(i, row). list_all (\<lambda>(j, sf). featuresEligible e i j sf) (enumerate 0 row))
           (enumerate 0 (summits p)))"

definition directionsCurrent :: "GridPlan \<Rightarrow> bool" where
  "directionsCurrent p =
     list_all (\<lambda>(i, row). list_all (\<lambda>(j, sf).
         connector_angle sf = None
         \<or> connector_angle sf = Some (computeConnectorDirection (tiles p) i j)) (enumerate 0 row))
       (enumerate 0 (summits p))"






definition planInvariant :: "GridPlan \<Rightarrow> bool" where
  "planInvariant p = (wellFormed p \<and> eligibilityConsistent p \<and> directionsCurrent p)"




section \<open>Properties of the eligibility engine\<close>

lemma nth_map_upt_Suc: "i \<le> n \<Longrightarrow> map f [0 ..< n + 1] ! i = f i"
  by (metis Suc_eq_plus1 add_0 le_imp_less_Suc nth_map_upt minus_nat.diff_0)

lemma nth_map_upt0: "i < n \<Longrightarrow> map f [0 ..< n] ! i = f i"
  by simp

lemma conn_nth:
  "i \<le> nrows ts \<Longrightarrow> j \<le> ncols ts \<Longrightarrow>
   computeEligibleConnectorPositions ts ! i ! j =
     (let tl = isTile ts (int i - 1) (int j - 1);
          tr = isTile ts (int i - 1) (int j);
          bl = isTile ts (int i) (int j - 1);
          br = isTile ts (int i) (int j)
      in (tl = tr \<and> bl = br \<and> tl \<noteq> bl) \<or> (tl = bl \<and> tr = br \<and> tl \<noteq> tr))"
  unfolding computeEligibleConnectorPositions_def by (simp only: nth_map_upt_Suc)

lemma chamfer_nth:
  "i \<le> nrows ts \<Longrightarrow> j \<le> ncols ts \<Longrightarrow>
   computeEligibleChamferPositions ts ! i ! j =
     (length (filter (\<lambda>b. b)
              [isTile ts (int i - 1) (int j - 1),
               isTile ts (int i - 1) (int j),
               isTile ts (int i) (int j - 1),
               isTile ts (int i) (int j)]) = 1)"
  unfolding computeEligibleChamferPositions_def by (simp only: nth_map_upt_Suc Let_def)

lemma screw_nth:
  "i \<le> nrows ts \<Longrightarrow> j \<le> ncols ts \<Longrightarrow>
   computeEligibleScrewPositions ts ! i ! j =
     (isTile ts (int i - 1) (int j - 1) \<and> isTile ts (int i - 1) (int j) \<and>
      isTile ts (int i) (int j - 1) \<and> isTile ts (int i) (int j))"
  unfolding computeEligibleScrewPositions_def by (simp only: nth_map_upt_Suc Let_def)

lemma grid22_rect: "rectangular [[True, True], [True, True]]"
  by (simp add: rectangular_def ncols_def)

lemma grid22_dims: "nrows [[True, True], [True, True]] = 2" "ncols [[True, True], [True, True]] = 2"
  by (simp_all add: nrows_def ncols_def)

text \<open>
  Claim C3 (mutual exclusivity). For every rectangular tile layout and every summit
  \<open>(i, j)\<close> of its \<open>(R+1) \<times> (C+1)\<close> summit grid, at most one of the three
  eligibility grids holds true at \<open>(i, j)\<close>.
\<close>

theorem mutual_exclusivity:
  assumes "rectangular ts" and "i \<le> nrows ts" and "j \<le> ncols ts"
  shows "length (filter (\<lambda>b. b)
           [computeEligibleConnectorPositions ts ! i ! j,
            computeEligibleChamferPositions ts ! i ! j,
            computeEligibleScrewPositions ts ! i ! j]) \<le> 1"
  unfolding conn_nth[OF assms(2,3)] chamfer_nth[OF assms(2,3)] screw_nth[OF assms(2,3)] Let_def
  by (cases "isTile ts (int i - 1) (int j - 1)"; cases "isTile ts (int i - 1) (int j)";
      cases "isTile ts (int i) (int j - 1)"; cases "isTile ts (int i) (int j)"; simp)

theorem mutual_exclusivity_witness:
  "rectangular [[True, True], [True, True]] \<and> (1::nat) \<le> nrows [[True, True], [True, True]]
   \<and> (1::nat) \<le> ncols [[True, True], [True, True]]
   \<and> length (filter (\<lambda>b. b)
           [computeEligibleConnectorPositions [[True, True], [True, True]] ! 1 ! 1,
            computeEligibleChamferPositions [[True, True], [True, True]] ! 1 ! 1,
            computeEligibleScrewPositions [[True, True], [True, True]] ! 1 ! 1]) \<le> 1"
proof -
  have d: "(1::nat) \<le> nrows [[True, True], [True, True]]" "(1::nat) \<le> ncols [[True, True], [True, True]]"
    by (simp_all add: grid22_dims)
  from mutual_exclusivity[OF grid22_rect d] grid22_rect d show ?thesis by blast
qed

lemma isTile_iff:
  "isTile ts r c = (0 \<le> r \<and> r < int (nrows ts) \<and> 0 \<le> c \<and> c < int (ncols ts) \<and> ts ! nat r ! nat c)"
  by (auto simp add: isTile_def Let_def)

lemma count_one_iff:
  "(length (filter (\<lambda>b. b) [a, b, c, d]) = 1) = (of_bool a + of_bool b + of_bool c + of_bool d = (1::nat))"
  by (cases a; cases b; cases c; cases d; simp)

text \<open>
  Claim C5 (eligibility predicates). With the four neighbours read at
  \<open>(i-1, j-1)\<close>, \<open>(i-1, j)\<close>, \<open>(i, j-1)\<close>, \<open>(i, j)\<close>, the screw grid holds the
  conjunction of the four, the chamfer grid holds "exactly one of the four is a tile" and
  the connector grid holds the two split conditions; \<open>isTile\<close> is the bounds-checked
  lookup, false outside the grid.
\<close>

theorem eligibility_definitions:
  assumes "rectangular ts" and "i \<le> nrows ts" and "j \<le> ncols ts"
  shows "(let tl = isTile ts (int i - 1) (int j - 1);
              tr = isTile ts (int i - 1) (int j);
              bl = isTile ts (int i) (int j - 1);
              br = isTile ts (int i) (int j)
          in computeEligibleScrewPositions ts ! i ! j = (tl \<and> tr \<and> bl \<and> br)
           \<and> computeEligibleChamferPositions ts ! i ! j
               = (of_bool tl + of_bool tr + of_bool bl + of_bool br = (1::nat))
           \<and> computeEligibleConnectorPositions ts ! i ! j
               = ((tl = tr \<and> bl = br \<and> tl \<noteq> bl) \<or> (tl = bl \<and> tr = br \<and> tl \<noteq> tr)))
         \<and> (\<forall>r c. isTile ts r c =
               (0 \<le> r \<and> r < int (nrows ts) \<and> 0 \<le> c \<and> c < int (ncols ts) \<and> ts ! nat r ! nat c))"
proof -
  have "\<forall>r c. isTile ts r c =
          (0 \<le> r \<and> r < int (nrows ts) \<and> 0 \<le> c \<and> c < int (ncols ts) \<and> ts ! nat r ! nat c)"
    using isTile_iff by blast
  moreover have "computeEligibleChamferPositions ts ! i ! j
      = (of_bool (isTile ts (int i - 1) (int j - 1)) + of_bool (isTile ts (int i - 1) (int j))
         + of_bool (isTile ts (int i) (int j - 1)) + of_bool (isTile ts (int i) (int j)) = (1::nat))"
    unfolding chamfer_nth[OF assms(2,3)] by (rule count_one_iff)
  ultimately show ?thesis
    unfolding Let_def using conn_nth[OF assms(2,3)] screw_nth[OF assms(2,3)]
    unfolding Let_def by blast
qed

theorem eligibility_definitions_witness:
  "rectangular [[True, True], [True, True]] \<and> (0::nat) \<le> nrows [[True, True], [True, True]]
   \<and> (1::nat) \<le> ncols [[True, True], [True, True]]
   \<and> computeEligibleConnectorPositions [[True, True], [True, True]] ! 0 ! 1
   \<and> \<not> computeEligibleChamferPositions [[True, True], [True, True]] ! 0 ! 1
   \<and> \<not> computeEligibleScrewPositions [[True, True], [True, True]] ! 0 ! 1"
proof -
  have d: "(0::nat) \<le> nrows [[True, True], [True, True]]" "(1::nat) \<le> ncols [[True, True], [True, True]]"
    by (simp_all add: grid22_dims)
  have t: "\<not> isTile [[True, True], [True, True]] (int 0 - 1) (int 1 - 1)"
      "\<not> isTile [[True, True], [True, True]] (int 0 - 1) (int 1)"
      "isTile [[True, True], [True, True]] (int 0) (int 1 - 1)"
      "isTile [[True, True], [True, True]] (int 0) (int 1)"
    by (simp_all add: isTile_def grid22_dims)
  from eligibility_definitions[OF grid22_rect d] t grid22_rect d show ?thesis
    unfolding Let_def by simp
qed

text \<open>
  Claim C6 (connector direction). On a horizontal split the direction is \<open>-90\<close> when the
  bottom side holds the tiles and \<open>90\<close> otherwise; on a vertical split it is \<open>0\<close> when
  the right side holds the tiles and \<open>180\<close> otherwise; it is \<open>0\<close> when neither split
  matches. On the 2 by 2 all-tile grid, summit \<open>(0, 1)\<close> is connector-eligible with
  direction \<open>-90\<close>, and summit \<open>(1, 1)\<close> is screw-eligible and neither connector- nor
  chamfer-eligible.
\<close>

theorem connector_direction:
  assumes "rectangular ts"
  shows "(let tl = isTile ts (int i - 1) (int j - 1);
              tr = isTile ts (int i - 1) (int j);
              bl = isTile ts (int i) (int j - 1);
              br = isTile ts (int i) (int j);
              horizontal = (tl = tr \<and> bl = br \<and> tl \<noteq> bl);
              vertical = (tl = bl \<and> tr = br \<and> tl \<noteq> tr);
              d = computeConnectorDirection ts i j
          in (horizontal \<and> bl \<longrightarrow> d = - 90) \<and> (horizontal \<and> \<not> bl \<longrightarrow> d = 90)
           \<and> (vertical \<and> tr \<longrightarrow> d = 0) \<and> (vertical \<and> \<not> tr \<longrightarrow> d = 180)
           \<and> (\<not> horizontal \<and> \<not> vertical \<longrightarrow> d = 0))
         \<and> computeEligibleConnectorPositions [[True, True], [True, True]] ! 0 ! 1
         \<and> computeConnectorDirection [[True, True], [True, True]] 0 1 = - 90
         \<and> computeEligibleScrewPositions [[True, True], [True, True]] ! 1 ! 1
         \<and> \<not> computeEligibleConnectorPositions [[True, True], [True, True]] ! 1 ! 1
         \<and> \<not> computeEligibleChamferPositions [[True, True], [True, True]] ! 1 ! 1"
proof -
  have general: "(let tl = isTile ts (int i - 1) (int j - 1);
              tr = isTile ts (int i - 1) (int j);
              bl = isTile ts (int i) (int j - 1);
              br = isTile ts (int i) (int j);
              horizontal = (tl = tr \<and> bl = br \<and> tl \<noteq> bl);
              vertical = (tl = bl \<and> tr = br \<and> tl \<noteq> tr);
              d = computeConnectorDirection ts i j
          in (horizontal \<and> bl \<longrightarrow> d = - 90) \<and> (horizontal \<and> \<not> bl \<longrightarrow> d = 90)
           \<and> (vertical \<and> tr \<longrightarrow> d = 0) \<and> (vertical \<and> \<not> tr \<longrightarrow> d = 180)
           \<and> (\<not> horizontal \<and> \<not> vertical \<longrightarrow> d = 0))"
    unfolding computeConnectorDirection_def Let_def
    by (cases "isTile ts (int i - 1) (int j - 1)"; cases "isTile ts (int i - 1) (int j)";
      cases "isTile ts (int i) (int j - 1)"; cases "isTile ts (int i) (int j)"; simp)
  have c1: "computeEligibleConnectorPositions [[True, True], [True, True]] = 
     [[False, True, False], [True, False, True], [False, True, False]]"
    by code_simp
  have c2: "computeEligibleScrewPositions [[True, True], [True, True]] = 
     [[False, False, False], [False, True, False], [False, False, False]]"
    by code_simp
  have c3: "computeEligibleChamferPositions [[True, True], [True, True]] = 
     [[True, False, True], [False, False, False], [True, False, True]]"
    by code_simp
  have c4: "computeConnectorDirection [[True, True], [True, True]] 0 1 = - 90"
    by code_simp
  show ?thesis using general c4 unfolding c1 c2 c3 by simp
qed

theorem connector_direction_witness:
  "rectangular [[True, False], [True, False]]
   \<and> computeConnectorDirection [[True, False], [True, False]] 1 1 = 180"
proof -
  have r: "rectangular [[True, False], [True, False]]"
    by (simp add: rectangular_def ncols_def)
  have t: "isTile [[True, False], [True, False]] (int 1 - 1) (int 1 - 1)"
      "\<not> isTile [[True, False], [True, False]] (int 1 - 1) (int 1)"
      "isTile [[True, False], [True, False]] (int 1) (int 1 - 1)"
      "\<not> isTile [[True, False], [True, False]] (int 1) (int 1)"
    by (simp_all add: isTile_def nrows_def ncols_def)
  from connector_direction[OF r, of 1 1] t r show ?thesis
    unfolding Let_def by simp
qed

lemma corner_nth:
  "i < nrows e \<Longrightarrow> j < ncols e \<Longrightarrow>
   computeCornerScrewPositions e ! i ! j =
     (e ! i ! j \<and>
      \<not> (isEligible e (int i) (int j - 1) \<and> isEligible e (int i) (int j + 1)) \<and>
      \<not> (isEligible e (int i - 1) (int j) \<and> isEligible e (int i + 1) (int j)))"
  unfolding computeCornerScrewPositions_def by (simp add: Let_def)

lemma isEligible_left: "i < nrows e \<Longrightarrow> j < ncols e \<Longrightarrow>
    isEligible e (int i) (int j - 1) = (0 < j \<and> e ! i ! (j - 1))"
  by (auto simp add: isEligible_def Let_def nat_diff_distrib')

lemma isEligible_right: "i < nrows e \<Longrightarrow>
    isEligible e (int i) (int j + 1) = (j + 1 < ncols e \<and> e ! i ! (j + 1))"
  by (auto simp add: isEligible_def Let_def nat_add_distrib)

lemma isEligible_up: "i < nrows e \<Longrightarrow> j < ncols e \<Longrightarrow>
    isEligible e (int i - 1) (int j) = (0 < i \<and> e ! (i - 1) ! j)"
  by (auto simp add: isEligible_def Let_def nat_diff_distrib')

lemma isEligible_down: "j < ncols e \<Longrightarrow>
    isEligible e (int i + 1) (int j) = (i + 1 < nrows e \<and> e ! (i + 1) ! j)"
  by (auto simp add: isEligible_def Let_def nat_add_distrib)

text \<open>
  Claim C7 (corner screws). On a rectangular screw-eligibility grid, position \<open>(i, j)\<close>
  is marked iff it is eligible, its left and right neighbours are not both eligible and
  its upper and lower neighbours are not both eligible, a neighbour outside the grid
  counting as ineligible. On the 3 by 3 all-tile grid the eligible positions are the inner
  2 by 2 block and all four are corners; on the 4 by 4 all-tile grid the eligible 3 by 3
  block keeps its four outer corners only.
\<close>

theorem corner_screws:
  assumes "rectangular e" and "i < nrows e" and "j < ncols e"
  shows "(computeCornerScrewPositions e ! i ! j =
           (e ! i ! j
            \<and> \<not> ((0 < j \<and> e ! i ! (j - 1)) \<and> (j + 1 < ncols e \<and> e ! i ! (j + 1)))
            \<and> \<not> ((0 < i \<and> e ! (i - 1) ! j) \<and> (i + 1 < nrows e \<and> e ! (i + 1) ! j))))
       \<and> computeEligibleScrewPositions (replicate 3 (replicate 3 True)) =
           [[False, False, False, False],
            [False, True, True, False],
            [False, True, True, False],
            [False, False, False, False]]
       \<and> computeCornerScrewPositions (computeEligibleScrewPositions (replicate 3 (replicate 3 True))) =
           [[False, False, False, False],
            [False, True, True, False],
            [False, True, True, False],
            [False, False, False, False]]
       \<and> computeEligibleScrewPositions (replicate 4 (replicate 4 True)) =
           [[False, False, False, False, False],
            [False, True, True, True, False],
            [False, True, True, True, False],
            [False, True, True, True, False],
            [False, False, False, False, False]]
       \<and> computeCornerScrewPositions (computeEligibleScrewPositions (replicate 4 (replicate 4 True))) =
           [[False, False, False, False, False],
            [False, True, False, True, False],
            [False, False, False, False, False],
            [False, True, False, True, False],
            [False, False, False, False, False]]"
proof -
  have general: "computeCornerScrewPositions e ! i ! j =
           (e ! i ! j
            \<and> \<not> ((0 < j \<and> e ! i ! (j - 1)) \<and> (j + 1 < ncols e \<and> e ! i ! (j + 1)))
            \<and> \<not> ((0 < i \<and> e ! (i - 1) ! j) \<and> (i + 1 < nrows e \<and> e ! (i + 1) ! j)))"
    unfolding corner_nth[OF assms(2,3)] isEligible_left[OF assms(2,3)] isEligible_right[OF assms(2)]
      isEligible_up[OF assms(2,3)] isEligible_down[OF assms(3)] ..
  have e3: "computeEligibleScrewPositions (replicate 3 (replicate 3 True)) =
           [[False, False, False, False],
            [False, True, True, False],
            [False, True, True, False],
            [False, False, False, False]]"
    by code_simp
  have c3: "computeCornerScrewPositions
           [[False, False, False, False],
            [False, True, True, False],
            [False, True, True, False],
            [False, False, False, False]] =
           [[False, False, False, False],
            [False, True, True, False],
            [False, True, True, False],
            [False, False, False, False]]"
    by code_simp
  have e4: "computeEligibleScrewPositions (replicate 4 (replicate 4 True)) =
           [[False, False, False, False, False],
            [False, True, True, True, False],
            [False, True, True, True, False],
            [False, True, True, True, False],
            [False, False, False, False, False]]"
    by code_simp
  have c4: "computeCornerScrewPositions
           [[False, False, False, False, False],
            [False, True, True, True, False],
            [False, True, True, True, False],
            [False, True, True, True, False],
            [False, False, False, False, False]] =
           [[False, False, False, False, False],
            [False, True, False, True, False],
            [False, False, False, False, False],
            [False, True, False, True, False],
            [False, False, False, False, False]]"
    by code_simp
  show ?thesis unfolding e3 e4 c3 c4 using general by simp
qed

theorem corner_screws_witness:
  "rectangular [[True, True, True], [True, False, False]]
   \<and> (0::nat) < nrows [[True, True, True], [True, False, False]]
   \<and> (1::nat) < ncols [[True, True, True], [True, False, False]]
   \<and> \<not> computeCornerScrewPositions [[True, True, True], [True, False, False]] ! 0 ! 1
   \<and> computeCornerScrewPositions [[True, True, True], [True, False, False]] ! 0 ! 0"
proof -
  have r: "rectangular [[True, True, True], [True, False, False]]"
    by (simp add: rectangular_def ncols_def)
  have d: "(0::nat) < nrows [[True, True, True], [True, False, False]]"
      "(1::nat) < ncols [[True, True, True], [True, False, False]]"
      "(0::nat) < ncols [[True, True, True], [True, False, False]]"
    by (simp_all add: nrows_def ncols_def)
  from corner_screws[OF r d(1,2)] corner_screws[OF r d(1,3)] r d show ?thesis
    by (simp add: nrows_def ncols_def)
qed


section \<open>Properties of pruning\<close>

lemma length_pruneSummits [simp]: "length (pruneSummits ss e) = length ss"
  by (simp add: pruneSummits_def)

lemma length_pruneSummits_row [simp]:
  "i < length ss \<Longrightarrow> length (pruneSummits ss e ! i) = length (ss ! i)"
  by (simp add: pruneSummits_def nth_enumerate_eq)

lemma pruneSummits_nth:
  "i < length ss \<Longrightarrow> j < length (ss ! i) \<Longrightarrow>
   pruneSummits ss e ! i ! j =
     \<lparr>connector_angle = (if truthyAt (connectors e) i j then connector_angle (ss ! i ! j) else None),
      tile_chamfer = (if truthyAt (chamfers e) i j then tile_chamfer (ss ! i ! j) else False),
      screw = (if truthyAt (screws e) i j then screw (ss ! i ! j) else False)\<rparr>"
  by (simp add: pruneSummits_def nth_enumerate_eq)

lemma pruneSummits_idem: "pruneSummits (pruneSummits ss e) e = pruneSummits ss e"
proof (rule nth_equalityI)
  show "length (pruneSummits (pruneSummits ss e) e) = length (pruneSummits ss e)" by simp
next
  fix i assume "i < length (pruneSummits (pruneSummits ss e) e)"
  then have i: "i < length ss" by simp
  show "pruneSummits (pruneSummits ss e) e ! i = pruneSummits ss e ! i"
  proof (rule nth_equalityI)
    show "length (pruneSummits (pruneSummits ss e) e ! i) = length (pruneSummits ss e ! i)"
      using i by simp
  next
    fix j assume "j < length (pruneSummits (pruneSummits ss e) e ! i)"
    then have j: "j < length (ss ! i)" using i by simp
    show "pruneSummits (pruneSummits ss e) e ! i ! j = pruneSummits ss e ! i ! j"
      using i j by (simp add: pruneSummits_nth)
  qed
qed

lemma pruneSummits_clean:
  assumes "i < length ss" and "j < length (ss ! i)"
  shows "(connector_angle (pruneSummits ss e ! i ! j) \<noteq> None \<longrightarrow> truthyAt (connectors e) i j)
       \<and> (tile_chamfer (pruneSummits ss e ! i ! j) \<longrightarrow> truthyAt (chamfers e) i j)
       \<and> (screw (pruneSummits ss e ! i ! j) \<longrightarrow> truthyAt (screws e) i j)"
  using assms by (simp add: pruneSummits_nth)

text \<open>
  Claim C9 (idempotence of pruning). Pruning twice with the same eligibility triple is
  pruning once, and after one pruning no summit holds a connector angle, a chamfer or a
  screw whose eligibility entry is false or missing.
\<close>

theorem prune_idempotent:
  "pruneSummits (pruneSummits ss e) e = pruneSummits ss e
   \<and> (\<forall>i j. i < length ss \<and> j < length (ss ! i) \<longrightarrow>
        (connector_angle (pruneSummits ss e ! i ! j) \<noteq> None \<longrightarrow> truthyAt (connectors e) i j)
      \<and> (tile_chamfer (pruneSummits ss e ! i ! j) \<longrightarrow> truthyAt (chamfers e) i j)
      \<and> (screw (pruneSummits ss e ! i ! j) \<longrightarrow> truthyAt (screws e) i j))"
  using pruneSummits_idem pruneSummits_clean by blast

theorem prune_idempotent_witness:
  "pruneSummits (pruneSummits
       [[\<lparr>connector_angle = Some 90, tile_chamfer = True, screw = True\<rparr>]]
       \<lparr>connectors = [[False]], chamfers = [[True]], screws = []\<rparr>)
       \<lparr>connectors = [[False]], chamfers = [[True]], screws = []\<rparr>
     = [[\<lparr>connector_angle = None, tile_chamfer = True, screw = False\<rparr>]]
   \<and> (0::nat) < length [[\<lparr>connector_angle = Some 90, tile_chamfer = True, screw = True\<rparr>]]
   \<and> (0::nat) < length ([[\<lparr>connector_angle = Some 90, tile_chamfer = True, screw = True\<rparr>]] ! 0)
   \<and> tile_chamfer (pruneSummits
       [[\<lparr>connector_angle = Some 90, tile_chamfer = True, screw = True\<rparr>]]
       \<lparr>connectors = [[False]], chamfers = [[True]], screws = []\<rparr> ! 0 ! 0)
   \<and> truthyAt [[True]] 0 0"
proof -
  have p: "pruneSummits [[\<lparr>connector_angle = Some 90, tile_chamfer = True, screw = True\<rparr>]]
       \<lparr>connectors = [[False]], chamfers = [[True]], screws = []\<rparr>
     = [[\<lparr>connector_angle = None, tile_chamfer = True, screw = False\<rparr>]]"
    by (simp add: pruneSummits_def truthyAt_def)
  from prune_idempotent[of "[[\<lparr>connector_angle = Some 90, tile_chamfer = True, screw = True\<rparr>]]"
       "\<lparr>connectors = [[False]], chamfers = [[True]], screws = []\<rparr>"] p
  show ?thesis by simp
qed

section \<open>Properties of the editor operations\<close>

lemma forSummits_tiles_aux:
  "fold (\<lambda>(i, j) acc. case acc of Inl e \<Rightarrow> Inl e | Inr x \<Rightarrow> body i j x) ps (Inl e) = Inl e"
  by (induction ps) (auto split: prod.splits)


lemma setSummit_result:
  "setSummit i j f ss = Inr ss' \<Longrightarrow> ss' = ss[i := (ss ! i)[j := f (ss ! i ! j)]]"
  by (auto simp add: setSummit_def split: if_splits)






lemma init22:
  "initialState 2 2 =
     \<lparr>tiles = [[True, True], [True, True]],
      summits = [[emptySummit, emptySummit, emptySummit],
                 [emptySummit, emptySummit, emptySummit],
                 [emptySummit, emptySummit, emptySummit]],
      opengrid_type = Full, screw_size = DEFAULT_SCREW_SIZE\<rparr>"
  by (simp add: initialState_def createEmptyGrid_def numeral_3_eq_3 numeral_2_eq_2)

lemma chamfers22:
  "computeEligibleChamferPositions [[True, True], [True, True]] =
      [[True, False, True], [False, False, False], [True, False, True]]"
  by code_simp

lemma chamfers32:
  "computeEligibleChamferPositions [[True, True], [True, True], [True, True]] =
      [[True, False, True], [False, False, False], [False, False, False], [True, False, True]]"
  by code_simp

lemma toggleChamfer_init22:
  "toggleChamfer 2 0 (initialState 2 2) =
     Inr \<lparr>tiles = [[True, True], [True, True]],
      summits = [[emptySummit, emptySummit, emptySummit],
                 [emptySummit, emptySummit, emptySummit],
                 [\<lparr>connector_angle = None, tile_chamfer = True, screw = False\<rparr>, emptySummit, emptySummit]],
      opengrid_type = Full, screw_size = DEFAULT_SCREW_SIZE\<rparr>"
  unfolding init22
  by (simp add: toggleChamfer_def computeAllEligibility_def chamfers22 truthyAt_def
        setSummit_def Let_def emptySummit_def)

text \<open>
  Claim C2 (resize operations prune). The claim fails on \<open>addRow\<close> (and \<open>addColumn\<close>),
  which append tiles and summits without pruning: from the initial 2 by 2 editor state,
  switching on the chamfer at summit \<open>(2, 0)\<close> and then adding a row leaves that chamfer
  active although the summit is no longer chamfer-eligible.
\<close>

theorem addRow_keeps_ineligible_chamfer:
  "case runOps [ToggleChamfer 2 0, AddRow] (initialState 2 2) of
     Inl e \<Rightarrow> False
   | Inr s \<Rightarrow> tiles s = [[True, True], [True, True], [True, True]]
       \<and> tile_chamfer (summits s ! 2 ! 0)
       \<and> \<not> truthyAt (chamfers (computeAllEligibility (tiles s))) 2 0"
  unfolding runOps.simps applyOp.simps toggleChamfer_init22
  by (simp add: addRow_def computeAllEligibility_def chamfers32 truthyAt_def ncols_def Let_def)

section \<open>Properties of the codec: validation\<close>

lemma decode_alt:
  "decode code =
     (let parts = splitDot code
      in if length parts \<noteq> 7 then Inl (WrongPartCount (length parts))
         else if parts ! 0 \<noteq> ''0'' then Inl (UnsupportedVersion (parts ! 0))
         else if parts ! 1 \<noteq> ''f'' \<and> parts ! 1 \<noteq> ''l'' then Inl (InvalidType (parts ! 1))
         else case (parseInt (parts ! 2), parseInt (parts ! 3)) of
           (Some rowsI, Some colsI) \<Rightarrow>
             if rowsI < 1 \<or> colsI < 1 then Inl (DimensionsTooSmall rowsI colsI)
             else if length (b64urlDecode (parts ! 4)) \<noteq> 3
               then Inl (ScrewDataLength (length (b64urlDecode (parts ! 4))))
             else if length (b64urlDecode (parts ! 5)) < (nat rowsI * nat colsI + 7) div 8
               then Inl InsufficientTileData
             else if length (b64urlDecode (parts ! 6)) < ((nat rowsI + 1) * (nat colsI + 1) + 7) div 8
               then Inl InsufficientFeatureData
             else Inr \<lparr>tiles = unpackTiles (b64urlDecode (parts ! 5)) (nat rowsI) (nat colsI),
                       summits = resolveSummits
                          (unpackTiles (b64urlDecode (parts ! 5)) (nat rowsI) (nat colsI))
                          (b64urlDecode (parts ! 6)) (nat rowsI) (nat colsI),
                       opengrid_type = (if parts ! 1 = ''f'' then Full else Lite),
                       screw_size = \<lparr>diameter = real (b64urlDecode (parts ! 4) ! 0) / 10,
                                     head_diameter = real (b64urlDecode (parts ! 4) ! 1) / 10,
                                     head_inset = real (b64urlDecode (parts ! 4) ! 2) / 10\<rparr>\<rparr>
         | _ \<Rightarrow> Inl (InvalidDimensions (parts ! 2) (parts ! 3)))"
  unfolding decode_def Let_def unpackTiles_def resolveSummits_def resolveSummit_def
  by (simp split: option.splits)

lemma ceil_div8_nat: "\<lceil>real_of_int (int n) / 8\<rceil> = int ((n + 7) div 8)"
proof -
  have "\<lceil>real_of_int (int n) / real_of_int 8\<rceil> = - ((- int n) div 8)"
    by (simp only: ceiling_divide_eq_div of_int_minus[symmetric]) 
  also have "\<dots> = (int n + 7) div 8" by presburger
  finally show ?thesis by (simp add: zdiv_int)
qed


lemma ceil_div8_dims:
  assumes "1 \<le> r" and "1 \<le> c"
  shows "\<lceil>real_of_int (r * c) / 8\<rceil> = int ((nat r * nat c + 7) div 8)"
    and "\<lceil>real_of_int ((r + 1) * (c + 1)) / 8\<rceil> = int (((nat r + 1) * (nat c + 1) + 7) div 8)"
proof -
  have "r * c = int (nat r * nat c)" using assms by (simp add: nat_mult_distrib)
  then show "\<lceil>real_of_int (r * c) / 8\<rceil> = int ((nat r * nat c + 7) div 8)"
    using ceil_div8_nat[of "nat r * nat c"] by simp
  have "(nat r + 1) * (nat c + 1) = nat ((r + 1) * (c + 1))"
    using assms by (simp add: nat_mult_distrib nat_add_distrib)
  then have "(r + 1) * (c + 1) = int ((nat r + 1) * (nat c + 1))" using assms by simp
  then show "\<lceil>real_of_int ((r + 1) * (c + 1)) / 8\<rceil> = int (((nat r + 1) * (nat c + 1) + 7) div 8)"
    using ceil_div8_nat[of "(nat r + 1) * (nat c + 1)"] by simp
qed


section \<open>Properties of the codec: base64url\<close>

lemma lookupTable_value:
  "lookupTable =
     replicate 45 0 @ [62, 0, 0] @ map (\<lambda>i. 52 + i) [0 ..< 10] @ replicate 7 0
     @ [0 ..< 26] @ replicate 4 0 @ [63, 0] @ map (\<lambda>i. 26 + i) [0 ..< 26] @ replicate 5 0"
  by code_simp

declare lookupTable_value [code]







lemma n255: "(255::nat) = mask 8" by (simp add: mask_eq_exp_minus_1)


lemma and255_less: "(x::nat) AND 255 < 256"
  unfolding n255 take_bit_eq_mask[symmetric] by (simp add: take_bit_eq_mod)



















section \<open>Properties of the codec: bit packing\<close>





lemma bit_push1: "bit (push_bit k (1::nat)) m \<longleftrightarrow> m = k"
  by (auto simp add: bit_exp_iff)



lemma pos_recompose: "8 * ((i::nat) div 8) + (7 - (7 - i mod 8)) = i"
proof -
  have "i mod 8 < 8" by simp
  then have "(7::nat) - (7 - i mod 8) = i mod 8" by linarith
  then show ?thesis by simp
qed













section \<open>Properties of the codec: numbers and fields\<close>







lemma splitDot_nonempty: "splitDot s \<noteq> []"
  by (induction s) (auto split: list.splits)



section \<open>Properties of the codec: grids\<close>
















section \<open>Properties of the codec: round trip\<close>













section \<open>Properties of the codec: inconsistent codes\<close>

lemma unpackTiles_dims:
  "nrows (unpackTiles td R C) = R" "1 \<le> R \<Longrightarrow> ncols (unpackTiles td R C) = C"
proof -
  show "nrows (unpackTiles td R C) = R" by (simp add: nrows_def unpackTiles_def)
  assume "1 \<le> R"
  then obtain R' where "R = Suc R'" by (cases R) auto
  then show "ncols (unpackTiles td R C) = C"
    by (simp add: ncols_def unpackTiles_def upt_conv_Cons del: upt_Suc)
qed

lemma resolveSummits_nth:
  "i \<le> R \<Longrightarrow> j \<le> C \<Longrightarrow>
   resolveSummits ts fd R C ! i ! j
     = resolveSummit ts (bytesToBits fd ((R + 1) * (C + 1)) ! (i * (C + 1) + j)) i j"
  unfolding resolveSummits_def by (simp only: nth_map_upt_Suc)

lemma resolveSummit_none:
  "\<not> computeEligibleConnectorPositions ts ! i ! j \<Longrightarrow>
   \<not> computeEligibleChamferPositions ts ! i ! j \<Longrightarrow>
   \<not> computeEligibleScrewPositions ts ! i ! j \<Longrightarrow>
   resolveSummit ts b i j = emptySummit"
  by (simp add: resolveSummit_def)

lemma decode_of_valid:
  assumes "passesValidation code"
  shows "\<exists>R C. 1 \<le> R \<and> 1 \<le> C \<and>
           decode code =
             Inr \<lparr>tiles = unpackTiles (b64urlDecode (splitDot code ! 5)) R C,
                  summits = resolveSummits (unpackTiles (b64urlDecode (splitDot code ! 5)) R C)
                              (b64urlDecode (splitDot code ! 6)) R C,
                  opengrid_type = (if splitDot code ! 1 = ''f'' then Full else Lite),
                  screw_size = \<lparr>diameter = real (b64urlDecode (splitDot code ! 4) ! 0) / 10,
                                head_diameter = real (b64urlDecode (splitDot code ! 4) ! 1) / 10,
                                head_inset = real (b64urlDecode (splitDot code ! 4) ! 2) / 10\<rparr>\<rparr>"
proof -
  from assms obtain r c where
    hdr: "length (splitDot code) = 7" "splitDot code ! 0 = ''0''"
         "splitDot code ! 1 = ''f'' \<or> splitDot code ! 1 = ''l''"
    and rc: "parseInt (splitDot code ! 2) = Some r" "parseInt (splitDot code ! 3) = Some c"
    and pos: "1 \<le> r" "1 \<le> c"
    and s: "length (b64urlDecode (splitDot code ! 4)) = 3"
    and t: "\<lceil>real_of_int (r * c) / 8\<rceil> \<le> int (length (b64urlDecode (splitDot code ! 5)))"
    and f: "\<lceil>real_of_int ((r + 1) * (c + 1)) / 8\<rceil> \<le> int (length (b64urlDecode (splitDot code ! 6)))"
    unfolding passesValidation_def Let_def by (auto split: option.splits)
  note cd = ceil_div8_dims[OF pos]
  from t have t': "\<not> length (b64urlDecode (splitDot code ! 5)) < (nat r * nat c + 7) div 8"
    unfolding cd by simp
  from f have f': "\<not> length (b64urlDecode (splitDot code ! 6)) < ((nat r + 1) * (nat c + 1) + 7) div 8"
    unfolding cd by simp
  have "decode code =
             Inr \<lparr>tiles = unpackTiles (b64urlDecode (splitDot code ! 5)) (nat r) (nat c),
                  summits = resolveSummits (unpackTiles (b64urlDecode (splitDot code ! 5)) (nat r) (nat c))
                              (b64urlDecode (splitDot code ! 6)) (nat r) (nat c),
                  opengrid_type = (if splitDot code ! 1 = ''f'' then Full else Lite),
                  screw_size = \<lparr>diameter = real (b64urlDecode (splitDot code ! 4) ! 0) / 10,
                                head_diameter = real (b64urlDecode (splitDot code ! 4) ! 1) / 10,
                                head_inset = real (b64urlDecode (splitDot code ! 4) ! 2) / 10\<rparr>\<rparr>"
    unfolding decode_alt Let_def rc using hdr pos s t' f' by auto
  moreover have "1 \<le> nat r" "1 \<le> nat c" using pos by simp_all
  ultimately show ?thesis by blast
qed

text \<open>
  Claim C10 (inconsistent codes). A code that passes validation always decodes, and a
  summit whose activity bit is set while none of the three eligibility predicates holds
  for the decoded tiles comes back with no active feature: the bit is dropped silently.
\<close>

theorem decode_clears_ineligible_bit:
  assumes "passesValidation code"
  shows "\<exists>p. decode code = Inr p
           \<and> (\<forall>i j. i \<le> nrows (tiles p) \<and> j \<le> ncols (tiles p)
                 \<and> bytesToBits (b64urlDecode (splitDot code ! 6))
                      ((nrows (tiles p) + 1) * (ncols (tiles p) + 1)) ! (i * (ncols (tiles p) + 1) + j)
                 \<and> \<not> computeEligibleConnectorPositions (tiles p) ! i ! j
                 \<and> \<not> computeEligibleChamferPositions (tiles p) ! i ! j
                 \<and> \<not> computeEligibleScrewPositions (tiles p) ! i ! j
                 \<longrightarrow> summits p ! i ! j = emptySummit)"
proof -
  from decode_of_valid[OF assms] obtain R C where
    pos: "1 \<le> R" "1 \<le> C" and
    d: "decode code =
             Inr \<lparr>tiles = unpackTiles (b64urlDecode (splitDot code ! 5)) R C,
                  summits = resolveSummits (unpackTiles (b64urlDecode (splitDot code ! 5)) R C)
                              (b64urlDecode (splitDot code ! 6)) R C,
                  opengrid_type = (if splitDot code ! 1 = ''f'' then Full else Lite),
                  screw_size = \<lparr>diameter = real (b64urlDecode (splitDot code ! 4) ! 0) / 10,
                                head_diameter = real (b64urlDecode (splitDot code ! 4) ! 1) / 10,
                                head_inset = real (b64urlDecode (splitDot code ! 4) ! 2) / 10\<rparr>\<rparr>"
    by blast
  let ?ts = "unpackTiles (b64urlDecode (splitDot code ! 5)) R C"
  let ?fd = "b64urlDecode (splitDot code ! 6)"
  let ?p = "\<lparr>tiles = ?ts, summits = resolveSummits ?ts ?fd R C,
                  opengrid_type = (if splitDot code ! 1 = ''f'' then Full else Lite),
                  screw_size = \<lparr>diameter = real (b64urlDecode (splitDot code ! 4) ! 0) / 10,
                                head_diameter = real (b64urlDecode (splitDot code ! 4) ! 1) / 10,
                                head_inset = real (b64urlDecode (splitDot code ! 4) ! 2) / 10\<rparr>\<rparr>"
  have tp: "tiles ?p = ?ts" and sp: "summits ?p = resolveSummits ?ts ?fd R C" by simp_all
  have nr: "nrows ?ts = R" and nc: "ncols ?ts = C"
    using unpackTiles_dims pos by blast+
  have "summits ?p ! i ! j = emptySummit"
    if "i \<le> nrows (tiles ?p) \<and> j \<le> ncols (tiles ?p)
        \<and> bytesToBits ?fd ((nrows (tiles ?p) + 1) * (ncols (tiles ?p) + 1)) ! (i * (ncols (tiles ?p) + 1) + j)
        \<and> \<not> computeEligibleConnectorPositions (tiles ?p) ! i ! j
        \<and> \<not> computeEligibleChamferPositions (tiles ?p) ! i ! j
        \<and> \<not> computeEligibleScrewPositions (tiles ?p) ! i ! j" for i j
  proof -
    from that have ij: "i \<le> R" "j \<le> C"
      and ne: "\<not> computeEligibleConnectorPositions ?ts ! i ! j"
        "\<not> computeEligibleChamferPositions ?ts ! i ! j"
        "\<not> computeEligibleScrewPositions ?ts ! i ! j"
      unfolding tp nr nc by blast+
    show ?thesis
      unfolding sp resolveSummits_nth[OF ij] by (rule resolveSummit_none[OF ne])
  qed
  then show ?thesis using d by blast
qed

lemma forged_valid: "passesValidation ''0.f.1.1.KlAK.AA.8A''"
  by code_simp

lemma forged_decode: "decode ''0.f.1.1.KlAK.AA.8A'' =
   Inr \<lparr>tiles = [[False]], summits = [[emptySummit, emptySummit], [emptySummit, emptySummit]],
     opengrid_type = Full, screw_size = \<lparr>diameter = 42 / 10, head_diameter = 8, head_inset = 1\<rparr>\<rparr>"
  by code_simp

lemma forged_bits:
  "bytesToBits (b64urlDecode (splitDot ''0.f.1.1.KlAK.AA.8A'' ! 6)) 4 = [True, True, True, True]"
  by code_simp

lemma forged_eligibility:
  "computeEligibleConnectorPositions [[False]] = [[False, False], [False, False]]"
  "computeEligibleChamferPositions [[False]] = [[False, False], [False, False]]"
  "computeEligibleScrewPositions [[False]] = [[False, False], [False, False]]"
  by code_simp+

theorem decode_clears_ineligible_bit_witness:
  "passesValidation ''0.f.1.1.KlAK.AA.8A''
   \<and> decode ''0.f.1.1.KlAK.AA.8A'' =
       Inr \<lparr>tiles = [[False]], summits = [[emptySummit, emptySummit], [emptySummit, emptySummit]],
         opengrid_type = Full, screw_size = \<lparr>diameter = 42 / 10, head_diameter = 8, head_inset = 1\<rparr>\<rparr>
   \<and> bytesToBits (b64urlDecode (splitDot ''0.f.1.1.KlAK.AA.8A'' ! 6)) 4 ! 0
   \<and> \<not> computeEligibleConnectorPositions [[False]] ! 0 ! 0
   \<and> \<not> computeEligibleChamferPositions [[False]] ! 0 ! 0
   \<and> \<not> computeEligibleScrewPositions [[False]] ! 0 ! 0
   \<and> summits (projr (decode ''0.f.1.1.KlAK.AA.8A'')) ! 0 ! 0 = emptySummit"
proof -
  from decode_clears_ineligible_bit[OF forged_valid] obtain p where
    d: "decode ''0.f.1.1.KlAK.AA.8A'' = Inr p" and
    c: "\<And>i j. i \<le> nrows (tiles p) \<Longrightarrow> j \<le> ncols (tiles p)
          \<Longrightarrow> bytesToBits (b64urlDecode (splitDot ''0.f.1.1.KlAK.AA.8A'' ! 6))
                      ((nrows (tiles p) + 1) * (ncols (tiles p) + 1)) ! (i * (ncols (tiles p) + 1) + j)
          \<Longrightarrow> \<not> computeEligibleConnectorPositions (tiles p) ! i ! j
          \<Longrightarrow> \<not> computeEligibleChamferPositions (tiles p) ! i ! j
          \<Longrightarrow> \<not> computeEligibleScrewPositions (tiles p) ! i ! j
          \<Longrightarrow> summits p ! i ! j = emptySummit"
    by blast
  from d have p: "p = \<lparr>tiles = [[False]], summits = [[emptySummit, emptySummit], [emptySummit, emptySummit]],
     opengrid_type = Full, screw_size = \<lparr>diameter = 42 / 10, head_diameter = 8, head_inset = 1\<rparr>\<rparr>"
    unfolding forged_decode by simp
  have t: "tiles p = [[False]]" unfolding p by simp
  have n: "nrows [[False]] = 1" "ncols [[False]] = 1" by (simp_all add: nrows_def ncols_def)
  have four: "((1::nat) + 1) * (1 + 1) = 4" "(0::nat) * (1 + 1) + 0 = 0" by simp_all
  have b: "bytesToBits (b64urlDecode (splitDot ''0.f.1.1.KlAK.AA.8A'' ! 6)) 4 ! 0"
    unfolding forged_bits by simp
  have "summits p ! 0 ! 0 = emptySummit"
  proof (rule c[of 0 0])
    show "0 \<le> nrows (tiles p)" "0 \<le> ncols (tiles p)" by simp_all
    show "bytesToBits (b64urlDecode (splitDot ''0.f.1.1.KlAK.AA.8A'' ! 6))
            ((nrows (tiles p) + 1) * (ncols (tiles p) + 1)) ! (0 * (ncols (tiles p) + 1) + 0)"
      unfolding t n four by (rule b)
    show "\<not> computeEligibleConnectorPositions (tiles p) ! 0 ! 0"
      "\<not> computeEligibleChamferPositions (tiles p) ! 0 ! 0"
      "\<not> computeEligibleScrewPositions (tiles p) ! 0 ! 0"
      unfolding t forged_eligibility by simp_all
  qed
  then have s: "summits (projr (decode ''0.f.1.1.KlAK.AA.8A'')) ! 0 ! 0 = emptySummit"
    unfolding d by simp
  have e: "\<not> computeEligibleConnectorPositions [[False]] ! 0 ! 0"
      "\<not> computeEligibleChamferPositions [[False]] ! 0 ! 0"
      "\<not> computeEligibleScrewPositions [[False]] ! 0 ! 0"
    unfolding forged_eligibility by simp_all
  show ?thesis
    by (intro conjI) (rule forged_valid forged_decode b e s)+
qed





section \<open>The plan invariant under the editor operations\<close>





lemma planInvariant_same_summits: "planInvariant s \<Longrightarrow> s\<lparr>summits := summits s\<rparr> = s"
  by simp







































section \<open>The round-trip law\<close>











end
